theory Spec2Isabelle
  imports Complex_Main "HOL-Library.List_Lexorder" "HOL-Library.Char_ord"
begin

section \<open>Data model of the parser module\<close>

text \<open>
  The combinator library keeps a source position and the remaining text in a
  \<open>State\<close>.  JavaScript strings are modelled as HOL strings (lists of
  characters, one per code unit); a one-character JavaScript string such as
  \<open>text[0]\<close> is the singleton list.  Line and column are JavaScript numbers
  that only ever count upwards by one, so they are modelled as integers.
\<close>

record Position =
  line :: int
  column :: int

record State =
  position :: Position
  "text" :: string

text \<open>
  \<open>Result<T> = ParserError | ParserResult<T>\<close>: the tag \<open>isError\<close> of the
  source is the constructor.
\<close>

datatype 'a Result =
    ParserError Position string
  | ParserResult 'a State

text \<open>
  A \<open>Parser<A>\<close> wraps a function from \<open>State\<close> to \<open>Result<A>\<close>.  The
  repetition combinators of the source recurse at parse time without any guard,
  so a parse may fail to return; \<open>None\<close> stands for a parse that does not
  return, \<open>Some r\<close> for one that returns \<open>r\<close>.
\<close>

type_synonym 'a Parser = "State \<Rightarrow> 'a Result option"

type_synonym 'a Lazy = "unit \<Rightarrow> 'a"

definition makeInput :: "string \<Rightarrow> State" where
  "makeInput t = \<lparr>position = \<lparr>line = 1, column = 1\<rparr>, text = t\<rparr>"

definition newline :: string where
  "newline = [CHR 0x0A]"

definition getCharacterFromInput :: "State \<Rightarrow> (string \<times> State) option" where
  "getCharacterFromInput input =
     (case text input of
        [] \<Rightarrow> None
      | c # cs \<Rightarrow>
          let first = [c] in
          if first = newline
          then Some (first,
                 \<lparr>position = \<lparr>line = line (position input) + 1, column = 1\<rparr>,
                  text = cs\<rparr>)
          else Some (first,
                 \<lparr>position = \<lparr>line = line (position input),
                              column = column (position input) + 1\<rparr>,
                  text = cs\<rparr>))"

section \<open>The Parser class\<close>

definition EMPTY_ERRROR :: "'a Result" where
  "EMPTY_ERRROR = ParserError \<lparr>line = 1, column = 1\<rparr> ''Empty parser''"

definition bind :: "'a Parser \<Rightarrow> ('a \<Rightarrow> 'b Parser) \<Rightarrow> 'b Parser" where
  "bind p f = (\<lambda>input.
     case p input of
       None \<Rightarrow> None
     | Some (ParserError pos msg) \<Rightarrow> Some (ParserError pos msg)
     | Some (ParserResult v rest) \<Rightarrow> f v rest)"

text \<open>
  \<open>parseIf\<close> builds its message with a template literal, which converts the
  parsed value to a string; the conversion is the parameter \<open>toString\<close>
  (the identity when the value is already a string).
\<close>

definition parseIf ::
  "('a \<Rightarrow> string) \<Rightarrow> 'a Parser \<Rightarrow> ('a \<Rightarrow> bool) \<Rightarrow> string \<Rightarrow> 'a Parser" where
  "parseIf toString p predicate description = (\<lambda>input.
     case p input of
       None \<Rightarrow> None
     | Some (ParserError pos msg) \<Rightarrow>
         Some (ParserError pos
                 (''Expected '' @ description @ '', but reach the end of input''))
     | Some (ParserResult v rest) \<Rightarrow>
         if predicate v then Some (ParserResult v rest)
         else Some (ParserError (position input)
                 (''Expected '' @ description @ '', but got '' @ toString v)))"

definition pure :: "'a \<Rightarrow> 'a Parser" where
  "pure a = (\<lambda>input. Some (ParserResult a input))"

definition fmap :: "'a Parser \<Rightarrow> ('a \<Rightarrow> 'b) \<Rightarrow> 'b Parser" where
  "fmap p f = (\<lambda>input.
     case p input of
       None \<Rightarrow> None
     | Some (ParserError pos msg) \<Rightarrow> Some (ParserError pos msg)
     | Some (ParserResult v rest) \<Rightarrow> Some (ParserResult (f v) rest))"

definition empty :: "'a Parser" where
  "empty = (\<lambda>input. Some (ParserError (position input) ''Empty parser''))"

definition choice :: "'a Parser \<Rightarrow> 'a Parser \<Rightarrow> 'a Parser" where
  "choice p1 p2 = (\<lambda>input.
     case p1 input of
       None \<Rightarrow> None
     | Some (ParserError pos msg) \<Rightarrow> p2 input
     | Some (ParserResult v rest) \<Rightarrow> Some (ParserResult v rest))"

definition lazyChoice :: "'a Parser Lazy \<Rightarrow> 'a Parser Lazy \<Rightarrow> 'a Parser" where
  "lazyChoice p1 p2 = (\<lambda>input.
     case p1 () input of
       None \<Rightarrow> None
     | Some (ParserError pos msg) \<Rightarrow> p2 () input
     | Some (ParserResult v rest) \<Rightarrow> Some (ParserResult v rest))"

text \<open>
  The \<open>for\<close> loop of \<open>multipleChoice\<close>: \<open>result\<close> starts as
  \<open>EMPTY_ERRROR\<close>, every alternative overwrites it, and the loop breaks at
  the first success.
\<close>

fun multipleChoice_loop :: "'a Result \<Rightarrow> 'a Parser list \<Rightarrow> 'a Parser" where
  "multipleChoice_loop result [] input = Some result"
| "multipleChoice_loop result (p # ps) input =
     (case p input of
        None \<Rightarrow> None
      | Some (ParserError pos msg) \<Rightarrow> multipleChoice_loop (ParserError pos msg) ps input
      | Some (ParserResult v rest) \<Rightarrow> Some (ParserResult v rest))"

definition multipleChoice :: "'a Parser list \<Rightarrow> 'a Parser" where
  "multipleChoice ps = (\<lambda>input. multipleChoice_loop EMPTY_ERRROR ps input)"

fun multipleLazyChoice_loop :: "'a Result \<Rightarrow> 'a Parser Lazy list \<Rightarrow> 'a Parser" where
  "multipleLazyChoice_loop result [] input = Some result"
| "multipleLazyChoice_loop result (p # ps) input =
     (case p () input of
        None \<Rightarrow> None
      | Some (ParserError pos msg) \<Rightarrow>
          multipleLazyChoice_loop (ParserError pos msg) ps input
      | Some (ParserResult v rest) \<Rightarrow> Some (ParserResult v rest))"

definition multipleLazyChoice :: "'a Parser Lazy list \<Rightarrow> 'a Parser" where
  "multipleLazyChoice ps = (\<lambda>input. multipleLazyChoice_loop EMPTY_ERRROR ps input)"

subsection \<open>Monotonicity of the combinators\<close>

text \<open>
  The recursive combinators are defined as least fixed points over the flat
  order on \<open>option\<close>; the definitions need every combinator through which the
  recursion passes to be monotone in its parser arguments.
\<close>

lemma option_ord_None [simp]: "option_ord None y"
  by (simp add: flat_ord_def)

lemma option_ord_Some [simp]: "option_ord (Some x) y \<longleftrightarrow> y = Some x"
  by (auto simp: flat_ord_def)

lemma bind_mono [partial_function_mono]:
  fixes B :: "('x \<Rightarrow> 'y option) \<Rightarrow> 'a Parser"
  assumes B: "\<And>s. mono_option (\<lambda>f. B f s)"
    and C: "\<And>a s. mono_option (\<lambda>f. C f a s)"
  shows "mono_option (\<lambda>f. bind (B f) (C f) s)"
proof (rule monotoneI)
  fix f g :: "'x \<Rightarrow> 'y option"
  assume fg: "fun_ord option_ord f g"
  have b: "option_ord (B f t) (B g t)" for t
    using B [of t] fg unfolding monotone_def by blast
  have c: "option_ord (C f a t) (C g a t)" for a t
    using C fg unfolding monotone_def by blast
  show "option_ord (bind (B f) (C f) s) (bind (B g) (C g) s)"
  proof (cases "B f s")
    case None
    then show ?thesis by (simp add: bind_def)
  next
    case (Some r)
    with b [of s] have "B g s = Some r" by simp
    with Some c show ?thesis
      by (cases r) (simp_all add: bind_def)
  qed
qed

lemma choice_mono [partial_function_mono]:
  fixes B :: "('x \<Rightarrow> 'y option) \<Rightarrow> 'a Parser"
  assumes B: "\<And>s. mono_option (\<lambda>f. B f s)"
    and C: "\<And>s. mono_option (\<lambda>f. C f s)"
  shows "mono_option (\<lambda>f. choice (B f) (C f) s)"
proof (rule monotoneI)
  fix f g :: "'x \<Rightarrow> 'y option"
  assume fg: "fun_ord option_ord f g"
  have b: "option_ord (B f t) (B g t)" for t
    using B [of t] fg unfolding monotone_def by blast
  have c: "option_ord (C f t) (C g t)" for t
    using C fg unfolding monotone_def by blast
  show "option_ord (choice (B f) (C f) s) (choice (B g) (C g) s)"
  proof (cases "B f s")
    case None
    then show ?thesis by (simp add: choice_def)
  next
    case (Some r)
    with b [of s] have "B g s = Some r" by simp
    with Some c show ?thesis
      by (cases r) (simp_all add: choice_def)
  qed
qed

lemma lazyChoice_mono [partial_function_mono]:
  fixes B :: "('x \<Rightarrow> 'y option) \<Rightarrow> 'a Parser Lazy"
  assumes B: "\<And>s. mono_option (\<lambda>f. B f () s)"
    and C: "\<And>s. mono_option (\<lambda>f. C f () s)"
  shows "mono_option (\<lambda>f. lazyChoice (B f) (C f) s)"
proof (rule monotoneI)
  fix f g :: "'x \<Rightarrow> 'y option"
  assume fg: "fun_ord option_ord f g"
  have b: "option_ord (B f () t) (B g () t)" for t
    using B [of t] fg unfolding monotone_def by blast
  have c: "option_ord (C f () t) (C g () t)" for t
    using C fg unfolding monotone_def by blast
  show "option_ord (lazyChoice (B f) (C f) s) (lazyChoice (B g) (C g) s)"
  proof (cases "B f () s")
    case None
    then show ?thesis by (simp add: lazyChoice_def)
  next
    case (Some r)
    with b [of s] have "B g () s = Some r" by simp
    with Some c show ?thesis
      by (cases r) (simp_all add: lazyChoice_def)
  qed
qed

subsection \<open>Repetition\<close>

text \<open>
  \<open>many\<close> and \<open>some\<close> call each other; \<open>some\<close> is inlined in the
  recursive definition and then defined by its own equation of the source.
\<close>

partial_function (option) many :: "'a Parser \<Rightarrow> State \<Rightarrow> 'a list Result option" where
  "many p input =
     choice (bind p (\<lambda>a. bind (many p) (\<lambda>as. pure (a # as)))) (pure []) input"

definition some :: "'a Parser \<Rightarrow> 'a list Parser" where
  "some p = bind p (\<lambda>a. bind (many p) (\<lambda>as. pure (a # as)))"

lemma many_eq: "many p = choice (some p) (pure [])"
  by (rule ext) (simp add: some_def many.simps)

definition sepBySome :: "'a Parser \<Rightarrow> 'b Parser \<Rightarrow> 'a list Parser" where
  "sepBySome p sep =
     bind p (\<lambda>a. bind (many (bind sep (\<lambda>_. p))) (\<lambda>as. pure (a # as)))"

definition sepBy :: "'a Parser \<Rightarrow> 'b Parser \<Rightarrow> 'a list Parser" where
  "sepBy p sep = choice (sepBySome p sep) (pure [])"

text \<open>
  \<open>chainLeft\<close> declares the local recursive function \<open>rest\<close>, here
  \<open>chainLeft_rest\<close> with the captured \<open>p\<close> and \<open>op\<close> as parameters.
\<close>

partial_function (option) chainLeft_rest ::
  "'a Parser \<Rightarrow> ('a \<Rightarrow> 'a \<Rightarrow> 'a) Parser \<Rightarrow> 'a \<Rightarrow> State \<Rightarrow> 'a Result option" where
  "chainLeft_rest p opr a input =
     choice (bind opr (\<lambda>f. bind p (\<lambda>b. chainLeft_rest p opr (f a b)))) (pure a) input"

definition chainLeft :: "'a Parser \<Rightarrow> ('a \<Rightarrow> 'a \<Rightarrow> 'a) Parser \<Rightarrow> 'a Parser" where
  "chainLeft p opr = bind p (chainLeft_rest p opr)"

section \<open>Primitive parsers\<close>

definition item :: "string Parser" where
  "item = (\<lambda>input.
     case getCharacterFromInput input of
       None \<Rightarrow> Some (ParserError (position input) ''Unexpected end of input'')
     | Some (character, rest) \<Rightarrow> Some (ParserResult character rest))"

definition WHITE_SPACES :: "string list" where
  "WHITE_SPACES = ['' '', [CHR 0x0A], [CHR 0x09]]"

text \<open>
  The comparisons \<open>c >= '0' && c <= '9'\<close> of the source compare strings,
  lexicographically by code unit; so does the order on HOL strings.
\<close>

definition digit :: "string Parser" where
  "digit = parseIf (\<lambda>c. c) item (\<lambda>c. c \<ge> ''0'' \<and> c \<le> ''9'') ''a digit''"

definition lower :: "string Parser" where
  "lower = parseIf (\<lambda>c. c) item (\<lambda>c. c \<ge> ''a'' \<and> c \<le> ''z'') ''a lower case letter''"

definition upper :: "string Parser" where
  "upper = parseIf (\<lambda>c. c) item (\<lambda>c. c \<ge> ''A'' \<and> c \<le> ''Z'') ''an upper case letter''"

definition whitespace :: "string Parser" where
  "whitespace = parseIf (\<lambda>c. c) item (\<lambda>c. List.member WHITE_SPACES c) ''a whitespace''"

definition letter :: "string Parser" where
  "letter = choice lower upper"

definition alphanum :: "string Parser" where
  "alphanum = choice letter digit"

definition whitespaces :: "string list Parser" where
  "whitespaces = many whitespace"

definition token :: "'a Parser \<Rightarrow> 'a Parser" where
  "token p = bind p (\<lambda>a. bind whitespaces (\<lambda>_. pure a))"

definition char :: "string \<Rightarrow> string Parser" where
  "char c = parseIf (\<lambda>c. c) item (\<lambda>character. character = c) c"

text \<open>
  \<open>str\<close> recurses on \<open>s.slice(1)\<close> until the string is empty;
  \<open>s[0]\<close> is the one-character string \<open>[c]\<close>, and \<open>c + cs\<close> is
  concatenation.
\<close>

fun str :: "string \<Rightarrow> string Parser" where
  "str [] = pure []"
| "str (c # s) = bind (char [c]) (\<lambda>c. bind (str s) (\<lambda>cs. pure (c @ cs)))"

definition symbol :: "string \<Rightarrow> string Parser" where
  "symbol s = token (str s)"


text \<open>
  \<open>advance n s\<close> is the state that \<open>getCharacterFromInput\<close> reaches from
  \<open>s\<close> by consuming \<open>n\<close> characters, one call after the other (and the
  state at which the text ran out, if it does).  It is used to say where a
  parser that consumed \<open>n\<close> characters has arrived.
\<close>

fun advance :: "nat \<Rightarrow> State \<Rightarrow> State" where
  "advance 0 s = s"
| "advance (Suc n) s =
     (case getCharacterFromInput s of
        None \<Rightarrow> s
      | Some (c, rest) \<Rightarrow> advance n rest)"

section \<open>The arithmetic grammar\<close>

text \<open>
  The grammar is recursive through \<open>chainLeft\<close>, which therefore has to be
  monotone in the parser it repeats.
\<close>

lemma chainLeft_rest_mono_aux:
  assumes "chainLeft_rest p opr a s = Some r"
  shows "\<forall>p'. (\<forall>t x. p t = Some x \<longrightarrow> p' t = Some x) \<longrightarrow> chainLeft_rest p' opr a s = Some r"
proof (rule chainLeft_rest.raw_induct
    [where P = "\<lambda>p opr a s r.
       \<forall>p'. (\<forall>t x. p t = Some x \<longrightarrow> p' t = Some x) \<longrightarrow> chainLeft_rest p' opr a s = Some r",
     OF _ assms])
  fix rest :: "'a Parser \<Rightarrow> ('a \<Rightarrow> 'a \<Rightarrow> 'a) Parser \<Rightarrow> 'a \<Rightarrow> State \<Rightarrow> 'a Result option"
    and p opr a input r
  assume IH: "\<And>p opr a input r. rest p opr a input = Some r \<Longrightarrow>
      \<forall>p'. (\<forall>t x. p t = Some x \<longrightarrow> p' t = Some x) \<longrightarrow> chainLeft_rest p' opr a input = Some r"
    and body: "choice (bind opr (\<lambda>f. bind p (\<lambda>b. rest p opr (f a b)))) (pure a) input = Some r"
  show "\<forall>p'. (\<forall>t x. p t = Some x \<longrightarrow> p' t = Some x) \<longrightarrow> chainLeft_rest p' opr a input = Some r"
  proof (intro allI impI)
    fix p' :: "'a Parser"
    assume le: "\<forall>t x. p t = Some x \<longrightarrow> p' t = Some x"
    from body le IH show "chainLeft_rest p' opr a input = Some r"
      by (subst chainLeft_rest.simps)
         (auto simp: choice_def bind_def pure_def split: option.splits Result.splits)
  qed
qed

lemma chainLeft_mono [partial_function_mono]:
  fixes B :: "('x \<Rightarrow> 'y option) \<Rightarrow> 'a Parser"
  assumes B: "\<And>s. mono_option (\<lambda>f. B f s)"
  shows "mono_option (\<lambda>f. chainLeft (B f) opr s)"
proof (rule monotoneI)
  fix f g :: "'x \<Rightarrow> 'y option"
  assume fg: "fun_ord option_ord f g"
  have b: "option_ord (B f t) (B g t)" for t
    using B [of t] fg unfolding monotone_def by blast
  then have le: "\<forall>t x. B f t = Some x \<longrightarrow> B g t = Some x"
    by (metis option_ord_Some)
  show "option_ord (chainLeft (B f) opr s) (chainLeft (B g) opr s)"
  proof (cases "chainLeft (B f) opr s")
    case None
    then show ?thesis by simp
  next
    case (Some r)
    with le chainLeft_rest_mono_aux [of "B f" opr _ _ r] have "chainLeft (B g) opr s = Some r"
      by (auto simp: chainLeft_def bind_def split: option.splits Result.splits)
    with Some show ?thesis by simp
  qed
qed

text \<open>
  \<open>Operator\<close> is the union of the string literals \<open>'+'\<close>, \<open>'-'\<close>, \<open>'*'\<close>
  and \<open>'/'\<close>; \<open>operatorString\<close> gives the string an operator is.  The
  numbers of an \<open>Expression\<close> are JavaScript numbers, modelled as reals: the
  arithmetic is exact on the small integers the properties below are about.
  Division by zero is \<open>0\<close> in HOL where JavaScript gives an infinity or
  \<open>NaN\<close>; nothing below divides.
\<close>

datatype Operator = Plus | Minus | Times | Divide

fun operatorString :: "Operator \<Rightarrow> string" where
  "operatorString Plus = ''+''"
| "operatorString Minus = ''-''"
| "operatorString Times = ''*''"
| "operatorString Divide = ''/''"

datatype Expression =
    number real
  | binaryExpression Operator Expression Expression

fun Operation :: "Operator \<Rightarrow> real \<Rightarrow> real \<Rightarrow> real" where
  "Operation Plus a b = a + b"
| "Operation Minus a b = a - b"
| "Operation Times a b = a * b"
| "Operation Divide a b = a / b"

definition makeExpression :: "Operator \<Rightarrow> Expression \<Rightarrow> Expression \<Rightarrow> Expression" where
  "makeExpression opr left right = binaryExpression opr left right"

definition operator :: "Operator \<Rightarrow> (Expression \<Rightarrow> Expression \<Rightarrow> Expression) Parser" where
  "operator opr = fmap (symbol (operatorString opr)) (\<lambda>_. makeExpression opr)"

definition plusMinus :: "(Expression \<Rightarrow> Expression \<Rightarrow> Expression) Parser" where
  "plusMinus = choice (operator Plus) (operator Minus)"

definition mulDiv :: "(Expression \<Rightarrow> Expression \<Rightarrow> Expression) Parser" where
  "mulDiv = choice (operator Times) (operator Divide)"

definition intString :: "string list Parser" where
  "intString = some digit"

definition realString :: "string list Parser" where
  "realString =
     bind intString (\<lambda>ds. bind (char ''.'') (\<lambda>_. bind intString (\<lambda>rs.
       pure (ds @ [''.''] @ rs))))"

text \<open>
  \<open>Number\<close> is the conversion of JavaScript, on the strings that reach it
  here: decimal digits, optionally followed by a point and more digits.
\<close>

definition decimal :: "string \<Rightarrow> nat" where
  "decimal ds = foldl (\<lambda>n c. 10 * n + (of_char c - 48)) 0 ds"

definition Number :: "string \<Rightarrow> real" where
  "Number s =
     (let ip = takeWhile (\<lambda>c. c \<noteq> CHR ''.'') s;
          fp = drop 1 (dropWhile (\<lambda>c. c \<noteq> CHR ''.'') s)
      in real (decimal ip) + real (decimal fp) / 10 ^ length fp)"

definition numeric :: "Expression Parser" where
  "numeric =
     fmap (bind (token (choice realString intString)) (\<lambda>s. pure (Number (concat s))))
       (\<lambda>value. number value)"

text \<open>
  \<open>lazyExpr\<close>, \<open>lazyTerm\<close> and \<open>lazyFactor\<close> are thunks that call each
  other.  The parser that \<open>lazyExpr()\<close> builds is defined first, as a least
  fixed point, with the bodies of the other two in place of their calls; the
  three thunks follow, and satisfy the equations of the source.
\<close>

partial_function (option) expr :: "State \<Rightarrow> Expression Result option" where
  "expr input =
     chainLeft
       (chainLeft
          (lazyChoice (\<lambda>_. numeric)
             (\<lambda>_. bind (symbol ''('') (\<lambda>_. bind expr (\<lambda>e. bind (symbol '')'') (\<lambda>_.
                pure e)))))
          mulDiv)
       plusMinus input"

definition lazyExpr :: "Expression Parser Lazy" where
  "lazyExpr = (\<lambda>_. expr)"

definition lazyFactor :: "Expression Parser Lazy" where
  "lazyFactor = (\<lambda>_. lazyChoice (\<lambda>_. numeric)
     (\<lambda>_. bind (symbol ''('') (\<lambda>_. bind (lazyExpr ()) (\<lambda>e. bind (symbol '')'') (\<lambda>_.
        pure e)))))"

definition lazyTerm :: "Expression Parser Lazy" where
  "lazyTerm = (\<lambda>_. chainLeft (lazyFactor ()) mulDiv)"

lemma lazyExpr_eq: "lazyExpr () = chainLeft (lazyTerm ()) plusMinus"
  by (rule ext) (simp add: lazyExpr_def lazyTerm_def lazyFactor_def expr.simps)

text \<open>
  Modelled from the spec: \<open>evaluate\<close>, which the tests call and the module of
  the grammar does not define.  The spec has it walk the expression tree
  recursively, applying \<open>+ - * /\<close> per node; the operations are those of the
  table \<open>Operation\<close>.
\<close>

fun evaluate :: "Expression \<Rightarrow> real" where
  "evaluate (number v) = v"
| "evaluate (binaryExpression opr l r) = Operation opr (evaluate l) (evaluate r)"

section \<open>Running a parser on an input state\<close>

text \<open>
  The combinators applied to an input state.  These are the equations used to
  run a parser on a concrete input: they unfold a combinator only where it is
  applied to a state, never inside the body of a parser that has not been
  reached.
\<close>

lemma item_Nil:
  "item \<lparr>position = pos, text = []\<rparr> = Some (ParserError pos ''Unexpected end of input'')"
  by (simp add: item_def getCharacterFromInput_def)

lemma item_Cons:
  "item \<lparr>position = \<lparr>line = l, column = k\<rparr>, text = c # cs\<rparr> =
     Some (ParserResult [c]
       \<lparr>position = (if c = CHR 0x0A then \<lparr>line = l + 1, column = 1\<rparr>
                     else \<lparr>line = l, column = k + 1\<rparr>),
        text = cs\<rparr>)"
  by (simp add: item_def getCharacterFromInput_def newline_def)

lemma bind_apply:
  "bind p f s = (case p s of
       None \<Rightarrow> None
     | Some (ParserError pos msg) \<Rightarrow> Some (ParserError pos msg)
     | Some (ParserResult v rest) \<Rightarrow> f v rest)"
  by (simp add: bind_def)

lemma pure_apply: "pure a s = Some (ParserResult a s)"
  by (simp add: pure_def)

lemma fmap_apply:
  "fmap p f s = (case p s of
       None \<Rightarrow> None
     | Some (ParserError pos msg) \<Rightarrow> Some (ParserError pos msg)
     | Some (ParserResult v rest) \<Rightarrow> Some (ParserResult (f v) rest))"
  by (simp add: fmap_def)

lemma choice_apply:
  "choice p1 p2 s = (case p1 s of
       None \<Rightarrow> None
     | Some (ParserError pos msg) \<Rightarrow> p2 s
     | Some (ParserResult v rest) \<Rightarrow> Some (ParserResult v rest))"
  by (simp add: choice_def)

lemma lazyChoice_apply:
  "lazyChoice p1 p2 s = (case p1 () s of
       None \<Rightarrow> None
     | Some (ParserError pos msg) \<Rightarrow> p2 () s
     | Some (ParserResult v rest) \<Rightarrow> Some (ParserResult v rest))"
  by (simp add: lazyChoice_def)

lemma parseIf_apply:
  "parseIf toString p predicate description s = (case p s of
       None \<Rightarrow> None
     | Some (ParserError pos msg) \<Rightarrow>
         Some (ParserError pos
                 (''Expected '' @ description @ '', but reach the end of input''))
     | Some (ParserResult v rest) \<Rightarrow>
         if predicate v then Some (ParserResult v rest)
         else Some (ParserError (position s)
                 (''Expected '' @ description @ '', but got '' @ toString v)))"
  by (simp add: parseIf_def)

lemmas run_parser =
  bind_apply pure_apply fmap_apply choice_apply lazyChoice_apply parseIf_apply
  item_Nil item_Cons many.simps chainLeft_rest.simps chainLeft_def some_def
  digit_def whitespace_def whitespaces_def WHITE_SPACES_def token_def char_def
  symbol_def makeInput_def

section \<open>Ordered choice\<close>

text \<open>
  Claim C1.  For all parsers \<open>p1\<close>, \<open>p2\<close> and every input state \<open>s\<close>:
  \<open>choice p1 p2\<close> runs \<open>p1\<close> on \<open>s\<close>.  If \<open>p1\<close> succeeds, that success is the
  result whatever \<open>p2\<close> is (also a \<open>p2\<close> that would not return: it is never
  consulted).  If \<open>p1\<close> fails, the result is that of \<open>p2\<close> on the same
  original state \<open>s\<close>; so when \<open>p2\<close> fails too, the failure returned is the
  one of \<open>p2\<close>, not the one of \<open>p1\<close>.
\<close>

theorem choice_ordered:
  "(p1 s = Some (ParserResult v s') \<longrightarrow>
      (\<forall>q. choice p1 q s = Some (ParserResult v s')))
   \<and> (p1 s = Some (ParserError pos1 msg1) \<longrightarrow> choice p1 p2 s = p2 s)
   \<and> (p1 s = Some (ParserError pos1 msg1) \<longrightarrow> p2 s = Some (ParserError pos2 msg2) \<longrightarrow>
        choice p1 p2 s = Some (ParserError pos2 msg2))"
  by (simp add: choice_def)

theorem choice_ordered_witness:
  "choice item (pure ''x'') (makeInput ''a'')
     = Some (ParserResult ''a'' \<lparr>position = \<lparr>line = 1, column = 2\<rparr>, text = []\<rparr>)
   \<and> choice item (pure ''x'') (makeInput []) = Some (ParserResult ''x'' (makeInput []))
   \<and> choice item empty (makeInput [])
     = Some (ParserError \<lparr>line = 1, column = 1\<rparr> ''Empty parser'')"
proof -
  have ok: "item (makeInput ''a'')
      = Some (ParserResult ''a'' \<lparr>position = \<lparr>line = 1, column = 2\<rparr>, text = []\<rparr>)"
    by (simp add: item_def getCharacterFromInput_def makeInput_def newline_def)
  have ko: "item (makeInput [])
      = Some (ParserError \<lparr>line = 1, column = 1\<rparr> ''Unexpected end of input'')"
    by (simp add: item_def getCharacterFromInput_def makeInput_def)
  have e: "empty (makeInput []) = Some (ParserError \<lparr>line = 1, column = 1\<rparr> ''Empty parser'')"
    by (simp add: empty_def makeInput_def)
  from choice_ordered [of item "makeInput ''a''" "''a''"
      "\<lparr>position = \<lparr>line = 1, column = 2\<rparr>, text = []\<rparr>"] ok
  have 1: "choice item (pure ''x'') (makeInput ''a'')
      = Some (ParserResult ''a'' \<lparr>position = \<lparr>line = 1, column = 2\<rparr>, text = []\<rparr>)"
    by blast
  from choice_ordered [of item "makeInput []" _ _ "\<lparr>line = 1, column = 1\<rparr>"
      "''Unexpected end of input''" "pure ''x''"] ko
  have 2: "choice item (pure ''x'') (makeInput []) = Some (ParserResult ''x'' (makeInput []))"
    by (simp add: pure_def)
  from choice_ordered [of item "makeInput []" _ _ "\<lparr>line = 1, column = 1\<rparr>"
      "''Unexpected end of input''" empty "\<lparr>line = 1, column = 1\<rparr>" "''Empty parser''"] ko e
  have 3: "choice item empty (makeInput [])
      = Some (ParserError \<lparr>line = 1, column = 1\<rparr> ''Empty parser'')"
    by simp
  from 1 2 3 show ?thesis by simp
qed

section \<open>Sequencing\<close>

text \<open>
  Claim C3.  The monad laws hold observably: for every value \<open>a\<close>, functions
  \<open>f\<close> and \<open>g\<close> from values to parsers, parser \<open>p\<close> and input state \<open>s\<close>,
  parsing \<open>s\<close> with \<open>pure(a).bind(f)\<close> gives what \<open>f(a)\<close> gives (left
  identity), with \<open>p.bind(pure)\<close> what \<open>p\<close> gives (right identity), and with
  \<open>p.bind(f).bind(g)\<close> what \<open>p.bind(x => f(x).bind(g))\<close> gives
  (associativity).  This includes parses that do not return.
\<close>

theorem monad_laws:
  "bind (pure a) f s = f a s
   \<and> bind p pure s = p s
   \<and> bind (bind p f) g s = bind p (\<lambda>x. bind (f x) g) s"
  by (simp add: bind_def pure_def split: option.splits Result.splits)

section \<open>Single characters\<close>

text \<open>
  Claim C4, as stated: on an input state whose remaining text is empty,
  \<open>item\<close> fails with the message \<open>unexpected end of input\<close>.  The
  message of the source begins with a capital letter, so \<open>item\<close> does not
  return the message as quoted.
\<close>

theorem item_message_counterexample:
  "item (makeInput [])
     \<noteq> Some (ParserError (position (makeInput [])) ''unexpected end of input'')"
  by (simp add: item_def getCharacterFromInput_def makeInput_def)

text \<open>
  Claim C4, amended.  For every input state: \<open>item\<close> fails with the message
  \<open>Unexpected end of input\<close> at the current position when the remaining text
  is empty.  Otherwise it succeeds with exactly the first remaining character,
  the rest of the text, and the position given by the newline rule: after a
  newline the line is one more and the column is 1, after any other character
  the column is one more and the line is unchanged.  On \<open>makeInput("a")\<close> it
  succeeds with the value \<open>"a"\<close> at column 2.
\<close>

theorem item_newline_rule:
  "(text s = [] \<longrightarrow>
      item s = Some (ParserError (position s) ''Unexpected end of input''))
   \<and> (text s = CHR 0x0A # cs \<longrightarrow>
      item s = Some (ParserResult [CHR 0x0A]
        \<lparr>position = \<lparr>line = line (position s) + 1, column = 1\<rparr>, text = cs\<rparr>))
   \<and> (text s = c # cs \<longrightarrow> c \<noteq> CHR 0x0A \<longrightarrow>
      item s = Some (ParserResult [c]
        \<lparr>position = \<lparr>line = line (position s), column = column (position s) + 1\<rparr>,
         text = cs\<rparr>))
   \<and> item (makeInput ''a'')
      = Some (ParserResult ''a'' \<lparr>position = \<lparr>line = 1, column = 2\<rparr>, text = []\<rparr>)"
  by (simp add: item_def getCharacterFromInput_def makeInput_def newline_def)

theorem item_newline_rule_witness:
  "item \<lparr>position = \<lparr>line = 3, column = 7\<rparr>, text = []\<rparr>
     = Some (ParserError \<lparr>line = 3, column = 7\<rparr> ''Unexpected end of input'')
   \<and> item \<lparr>position = \<lparr>line = 3, column = 7\<rparr>, text = [CHR 0x0A, CHR ''b'']\<rparr>
     = Some (ParserResult [CHR 0x0A] \<lparr>position = \<lparr>line = 4, column = 1\<rparr>, text = ''b''\<rparr>)
   \<and> item \<lparr>position = \<lparr>line = 3, column = 7\<rparr>, text = ''bc''\<rparr>
     = Some (ParserResult ''b'' \<lparr>position = \<lparr>line = 3, column = 8\<rparr>, text = ''c''\<rparr>)"
  using item_newline_rule [where s = "\<lparr>position = \<lparr>line = 3, column = 7\<rparr>, text = []\<rparr>"]
    item_newline_rule
      [where s = "\<lparr>position = \<lparr>line = 3, column = 7\<rparr>, text = [CHR 0x0A, CHR ''b'']\<rparr>"
         and cs = "''b''"]
    item_newline_rule
      [where s = "\<lparr>position = \<lparr>line = 3, column = 7\<rparr>, text = ''bc''\<rparr>"
         and c = "CHR ''b''" and cs = "''c''"]
  by simp

section \<open>Conditional acceptance\<close>



text \<open>
  Claim C10.  For every parser \<open>p\<close>, predicate, description and input state
  \<open>s\<close> on which \<open>p\<close> fails, for whatever reason,
  \<open>p.parseIf(predicate, description)\<close> fails at the position of the failure of
  \<open>p\<close> with the message \<open>Expected <description>, but reach the end of input\<close>:
  the wording is used whether or not the input has ended, and the message of
  \<open>p\<close> is not propagated.
\<close>

theorem parseIf_failure_rewritten:
  "p s = Some (ParserError pos msg) \<Longrightarrow>
     parseIf toString p predicate description s
       = Some (ParserError pos
           (''Expected '' @ description @ '', but reach the end of input''))"
  by (simp add: parseIf_def)

theorem parseIf_failure_rewritten_witness:
  "digit (makeInput ''a'')
     = Some (ParserError \<lparr>line = 1, column = 1\<rparr> ''Expected a digit, but got a'')
   \<and> parseIf (\<lambda>c. c) digit (\<lambda>c. c \<noteq> ''0'') ''a non-zero digit'' (makeInput ''a'')
     = Some (ParserError \<lparr>line = 1, column = 1\<rparr>
         ''Expected a non-zero digit, but reach the end of input'')"
proof -
  have d: "digit (makeInput ''a'')
      = Some (ParserError \<lparr>line = 1, column = 1\<rparr> ''Expected a digit, but got a'')"
    by (simp add: digit_def parseIf_def item_def getCharacterFromInput_def makeInput_def
        newline_def)
  from parseIf_failure_rewritten [where p = digit and s = "makeInput ''a''"
      and toString = "\<lambda>c. c" and predicate = "\<lambda>c. c \<noteq> ''0''"
      and description = "''a non-zero digit''", OF d] d
  show ?thesis by simp
qed

section \<open>The failing parser\<close>

text \<open>
  Claim C6, as stated: \<open>empty\<close> is the identity of \<open>choice\<close> on both sides.
  On the right this fails: at the end of the input \<open>item\<close> fails with its own
  message, and \<open>choice(item, empty)\<close> fails with the message of \<open>empty\<close>.
\<close>

theorem choice_empty_right_counterexample:
  "choice item empty (makeInput []) \<noteq> item (makeInput [])"
  by (simp add: choice_def item_def empty_def getCharacterFromInput_def makeInput_def)

text \<open>
  Claim C6, amended.  \<open>Parser.empty()\<close> always fails at the current position
  of \<open>s\<close> with the message \<open>Empty parser\<close>.  It is a left identity of
  \<open>choice\<close>: \<open>choice(empty, p)\<close> parses as \<open>p\<close> does.  On the right,
  \<open>choice(p, empty)\<close> parses as \<open>p\<close> does whenever \<open>p\<close> succeeds or does
  not return; when \<open>p\<close> fails, it fails as well, with the failure of \<open>empty\<close>
  (position of \<open>s\<close>, \<open>Empty parser\<close>) in place of the one of \<open>p\<close>.
\<close>

theorem choice_empty_identity:
  "choice empty p s = p s
   \<and> (p s = Some (ParserResult v s') \<longrightarrow> choice p empty s = p s)
   \<and> (p s = None \<longrightarrow> choice p empty s = p s)
   \<and> (p s = Some (ParserError pos msg) \<longrightarrow>
        choice p empty s = Some (ParserError (position s) ''Empty parser''))
   \<and> (empty :: 'a Parser) s = Some (ParserError (position s) ''Empty parser'')"
  for p :: "'a Parser"
  by (simp add: choice_def empty_def)

theorem choice_empty_identity_witness:
  "choice item empty (makeInput ''a'') = item (makeInput ''a'')
   \<and> choice item empty (makeInput [])
       = Some (ParserError \<lparr>line = 1, column = 1\<rparr> ''Empty parser'')
   \<and> choice (\<lambda>s. None) empty (makeInput []) = (None :: string Result option)"
proof -
  have ok: "item (makeInput ''a'')
      = Some (ParserResult ''a'' \<lparr>position = \<lparr>line = 1, column = 2\<rparr>, text = []\<rparr>)"
    by (simp add: item_def getCharacterFromInput_def makeInput_def newline_def)
  have ko: "item (makeInput [])
      = Some (ParserError \<lparr>line = 1, column = 1\<rparr> ''Unexpected end of input'')"
    by (simp add: item_def getCharacterFromInput_def makeInput_def)
  have p: "position (makeInput []) = \<lparr>line = 1, column = 1\<rparr>"
    by (simp add: makeInput_def)
  from choice_empty_identity [of item "makeInput ''a''"] ok
  have 1: "choice item empty (makeInput ''a'') = item (makeInput ''a'')"
    by blast
  from choice_empty_identity [of item "makeInput []"] ko p
  have 2: "choice item empty (makeInput [])
      = Some (ParserError \<lparr>line = 1, column = 1\<rparr> ''Empty parser'')"
    by metis
  from choice_empty_identity [of "\<lambda>s. (None :: string Result option)" "makeInput []"]
  have 3: "choice (\<lambda>s. None) empty (makeInput []) = (None :: string Result option)"
    by simp
  from 1 2 3 show ?thesis by simp
qed

text \<open>
  Claim C9.  For every input state \<open>s\<close>, \<open>Parser.multipleChoice()\<close> and
  \<open>Parser.multipleLazyChoice()\<close> with no alternative fail with the message
  \<open>Empty parser\<close> at the constant position line 1, column 1, whatever the
  position of \<open>s\<close>; the failure of \<open>Parser.empty()\<close> is at the position of
  \<open>s\<close>.
\<close>

theorem multipleChoice_no_alternative:
  "(multipleChoice [] :: 'a Parser) s = Some (ParserError \<lparr>line = 1, column = 1\<rparr> ''Empty parser'')
   \<and> (multipleLazyChoice [] :: 'a Parser) s = Some (ParserError \<lparr>line = 1, column = 1\<rparr> ''Empty parser'')
   \<and> (empty :: 'a Parser) s = Some (ParserError (position s) ''Empty parser'')"
  by (simp add: multipleChoice_def multipleLazyChoice_def EMPTY_ERRROR_def empty_def)

section \<open>Repetition never fails\<close>

text \<open>
  The source leaves termination of \<open>many\<close> to the grammar: repeating a
  parser that can succeed without consuming input does not return.  A parser
  that always returns and consumes input whenever it succeeds can be repeated
  safely; \<open>digit\<close> is one.
\<close>

lemma many_returns:
  assumes total: "\<And>t. \<exists>r. p t = Some r"
    and consumes: "\<And>t v t'. p t = Some (ParserResult v t') \<Longrightarrow> length (text t') < length (text t)"
  shows "\<exists>v s'. many p s = Some (ParserResult v s')"
proof (induction s rule: measure_induct_rule [where f = "\<lambda>s. length (text s)"])
  case (less s)
  from total obtain r where r: "p s = Some r" by blast
  show ?case
  proof (cases r)
    case (ParserError pos msg)
    with r show ?thesis
      by (subst many.simps) (simp add: choice_apply bind_apply pure_apply)
  next
    case (ParserResult a t)
    with r consumes have "length (text t) < length (text s)" by blast
    from less [OF this] obtain w u where "many p t = Some (ParserResult w u)" by blast
    with r ParserResult show ?thesis
      by (subst many.simps) (simp add: choice_apply bind_apply pure_apply)
  qed
qed

lemma many_digit_returns: "\<exists>v s'. many digit s = Some (ParserResult v s')"
proof (rule many_returns)
  show "\<exists>r. digit t = Some r" for t
    by (cases "text t")
       (simp_all add: digit_def parseIf_apply item_def getCharacterFromInput_def Let_def)
  show "length (text t') < length (text t)" if "digit t = Some (ParserResult v t')" for t v t'
    using that
    by (cases "text t")
       (auto simp: digit_def parseIf_apply item_def getCharacterFromInput_def Let_def
          split: if_splits)
qed

text \<open>
  Claim C7.  \<open>many(p)\<close> never fails: on every input state on which its
  evaluation returns, the result is a success; when \<open>p\<close> fails at once, it is
  the empty list with the state unchanged.  On \<open>makeInput("123a")\<close> the
  evaluation of \<open>many(digit)\<close> returns, with the value \<open>['1','2','3']\<close>, and
  leaves \<open>"a"\<close> as the remaining input.
\<close>

theorem many_never_fails:
  "(many p s = Some r \<longrightarrow> (\<exists>v s'. r = ParserResult v s'))
   \<and> (p s = Some (ParserError pos msg) \<longrightarrow> many p s = Some (ParserResult [] s))
   \<and> many digit (makeInput ''123a'')
       = Some (ParserResult [''1'', ''2'', ''3'']
           \<lparr>position = \<lparr>line = 1, column = 4\<rparr>, text = ''a''\<rparr>)"
proof (intro conjI impI)
  assume "many p s = Some r"
  then show "\<exists>v s'. r = ParserResult v s'"
    by (subst (asm) many.simps)
       (auto simp: choice_apply bind_apply pure_apply split: option.splits Result.splits)
next
  assume "p s = Some (ParserError pos msg)"
  then show "many p s = Some (ParserResult [] s)"
    by (subst many.simps) (simp add: choice_apply bind_apply pure_apply)
next
  show "many digit (makeInput ''123a'')
      = Some (ParserResult [''1'', ''2'', ''3'']
          \<lparr>position = \<lparr>line = 1, column = 4\<rparr>, text = ''a''\<rparr>)"
    by (simp add: run_parser)
qed

theorem many_never_fails_witness:
  "many digit (makeInput ''a'') = Some (ParserResult [] (makeInput ''a''))
   \<and> (\<exists>v s'. ParserResult [] (makeInput ''a'') = (ParserResult v s' :: string list Result))"
proof -
  have d: "digit (makeInput ''a'')
      = Some (ParserError \<lparr>line = 1, column = 1\<rparr> ''Expected a digit, but got a'')"
    by (simp add: digit_def parseIf_apply item_Cons makeInput_def)
  have m: "many digit (makeInput ''a'') = Some (ParserResult [] (makeInput ''a''))"
    by (rule many_never_fails [where p = digit and s = "makeInput ''a''",
          THEN conjunct2, THEN conjunct1, rule_format, OF d])
  have "\<exists>v s'. ParserResult [] (makeInput ''a'') = (ParserResult v s' :: string list Result)"
    by (rule many_never_fails [where p = digit and s = "makeInput ''a''",
          THEN conjunct1, rule_format, OF m])
  with m show ?thesis by simp
qed

section \<open>Left-associative chains\<close>

text \<open>
  Claim C2.  The arithmetic expression parser is \<open>chainLeft\<close> over terms with
  the operator parser \<open>plusMinus\<close>.  On the input \<open>4 - 2 + 3\<close> it succeeds,
  consumes the whole input and produces the left-associative tree
  \<open>(4 - 2) + 3\<close>, not \<open>4 - (2 + 3)\<close>; evaluating that tree by the operation of
  each node gives 5, where the other tree would give -1.
\<close>

theorem expr_left_associative:
  "lazyExpr () = chainLeft (lazyTerm ()) plusMinus
   \<and> lazyExpr () (makeInput ''4 - 2 + 3'')
       = Some (ParserResult
           (binaryExpression Plus (binaryExpression Minus (number 4) (number 2)) (number 3))
           \<lparr>position = \<lparr>line = 1, column = 10\<rparr>, text = []\<rparr>)
   \<and> evaluate
         (binaryExpression Plus (binaryExpression Minus (number 4) (number 2)) (number 3)) = 5
   \<and> evaluate
         (binaryExpression Minus (number 4) (binaryExpression Plus (number 2) (number 3))) = -1"
proof (intro conjI)
  show "lazyExpr () = chainLeft (lazyTerm ()) plusMinus"
    by (rule lazyExpr_eq)
  show "lazyExpr () (makeInput ''4 - 2 + 3'')
      = Some (ParserResult
          (binaryExpression Plus (binaryExpression Minus (number 4) (number 2)) (number 3))
          \<lparr>position = \<lparr>line = 1, column = 10\<rparr>, text = []\<rparr>)"
    by (simp add: lazyExpr_def expr.simps run_parser operator_def plusMinus_def mulDiv_def
        makeExpression_def numeric_def intString_def realString_def Number_def decimal_def)
qed simp_all

section \<open>Literal strings\<close>

lemma char_match:
  "text st = c # cs \<Longrightarrow> char [c] st = Some (ParserResult [c] (advance (Suc 0) st))"
  by (simp add: char_def parseIf_apply item_def getCharacterFromInput_def Let_def)

lemma char_mismatch:
  "text st = [] \<or> hd (text st) \<noteq> c \<Longrightarrow> \<exists>msg. char [c] st = Some (ParserError (position st) msg)"
  by (cases "text st") (auto simp add: char_def parseIf_apply item_def getCharacterFromInput_def Let_def newline_def)

lemma text_advance_1: "text st = c # cs \<Longrightarrow> text (advance (Suc 0) st) = cs"
  by (simp add: getCharacterFromInput_def Let_def)

lemma advance_Suc: "text st = c # cs \<Longrightarrow> advance (Suc n) st = advance n (advance (Suc 0) st)"
  by (simp add: getCharacterFromInput_def Let_def)

lemma str_match:
  "text st = s @ rest \<Longrightarrow>
     str s st = Some (ParserResult s (advance (length s) st)) \<and> text (advance (length s) st) = rest"
proof (induction s arbitrary: st)
  case Nil
  then show ?case by (simp add: pure_apply)
next
  case (Cons c s)
  then have t: "text st = c # (s @ rest)" by simp
  from Cons.IH [of "advance (Suc 0) st"] text_advance_1 [OF t]
  have "str s (advance (Suc 0) st) = Some (ParserResult s (advance (length s) (advance (Suc 0) st)))
      \<and> text (advance (length s) (advance (Suc 0) st)) = rest"
    by simp
  with char_match [OF t] advance_Suc [OF t, of "length s"] show ?case
    by (simp add: bind_apply pure_apply del: advance.simps)
qed

lemma str_mismatch:
  "text st = pre @ rest \<Longrightarrow> rest = [] \<or> hd rest \<noteq> c \<Longrightarrow>
     \<exists>msg. str (pre @ c # suf) st = Some (ParserError (position (advance (length pre) st)) msg)"
proof (induction pre arbitrary: st)
  case Nil
  with char_mismatch [of st c] show ?case
    by (auto simp: bind_apply)
next
  case (Cons d pre)
  then have t: "text st = d # (pre @ rest)" by simp
  from Cons.IH [of "advance (Suc 0) st"] text_advance_1 [OF t] Cons.prems(2)
  obtain msg where "str (pre @ c # suf) (advance (Suc 0) st)
      = Some (ParserError (position (advance (length pre) (advance (Suc 0) st))) msg)"
    by auto
  with char_match [OF t] advance_Suc [OF t, of "length pre"] show ?case
    by (simp add: bind_apply del: advance.simps)
qed

lemma advance_position:
  "n \<le> length (text st) \<Longrightarrow>
     line (position st) \<le> line (position (advance n st))
     \<and> (line (position (advance n st)) = line (position st) \<longrightarrow>
          column (position (advance n st)) = column (position st) + int n)"
proof (induction n arbitrary: st)
  case 0
  then show ?case by simp
next
  case (Suc n)
  then obtain c cs where t: "text st = c # cs"
    by (cases "text st") auto
  let ?s1 = "advance (Suc 0) st"
  have eq: "advance (Suc n) st = advance n ?s1"
    by (rule advance_Suc [OF t])
  have len: "n \<le> length (text ?s1)"
    using Suc.prems t text_advance_1 [OF t] by (simp del: advance.simps)
  have s1: "line (position ?s1) = (if c = CHR 0x0A then line (position st) + 1 else line (position st))"
    "column (position ?s1) = (if c = CHR 0x0A then 1 else column (position st) + 1)"
    using t by (simp_all add: getCharacterFromInput_def Let_def newline_def)
  from Suc.IH [OF len] s1 show ?case
    by (auto simp: eq simp del: advance.simps split: if_splits)
qed

lemma advance_moves:
  "0 < n \<Longrightarrow> n \<le> length (text st) \<Longrightarrow> position (advance n st) \<noteq> position st"
  using advance_position [of n st] by auto

lemma str_returns: "\<exists>r. str s st = Some r"
proof (induction s arbitrary: st)
  case Nil
  show ?case by (simp add: pure_apply)
next
  case (Cons c s)
  show ?case
  proof (cases "text st")
    case Nil
    then have "text st = [] \<or> hd (text st) \<noteq> c" by simp
    from char_mismatch [OF this] show ?thesis
      by (auto simp: bind_apply)
  next
    case (Cons d ds)
    show ?thesis
    proof (cases "d = c")
      case True
      with Cons have t: "text st = c # ds" by simp
      from Cons.IH [of "advance (Suc 0) st"] char_match [OF t] show ?thesis
        by (auto simp: bind_apply pure_apply simp del: advance.simps split: Result.splits)
    next
      case False
      with Cons have "text st = [] \<or> hd (text st) \<noteq> c" by simp
      from char_mismatch [OF this] show ?thesis
        by (auto simp: bind_apply)
    qed
  qed
qed

lemma str_success_prefix:
  "str s st = Some (ParserResult v st') \<Longrightarrow> \<exists>rest. text st = s @ rest"
proof (induction s arbitrary: st v st')
  case Nil
  show ?case by simp
next
  case (Cons c s)
  have "\<not> (text st = [] \<or> hd (text st) \<noteq> c)"
  proof
    assume "text st = [] \<or> hd (text st) \<noteq> c"
    from char_mismatch [OF this] Cons.prems show False
      by (auto simp: bind_apply)
  qed
  then obtain cs where t: "text st = c # cs"
    by (cases "text st") auto
  from Cons.prems char_match [OF t]
  obtain w st1 where "str s (advance (Suc 0) st) = Some (ParserResult w st1)"
    by (auto simp: bind_apply pure_apply simp del: advance.simps
        split: option.splits Result.splits)
  from Cons.IH [OF this] text_advance_1 [OF t] t show ?case
    by (auto simp del: advance.simps)
qed

text \<open>
  Claim C8.  For every string \<open>s\<close> and input state, \<open>str(s)\<close> returns; it
  succeeds exactly when the remaining input begins with \<open>s\<close>, and then
  its value is \<open>s\<close> and the new state is the one reached by consuming
  the characters of \<open>s\<close>, the rest of the input remaining.  \<open>str("")\<close>
  always succeeds and leaves the state unchanged.  When the input matches
  \<open>pre\<close>, a proper prefix of \<open>s\<close>, and then ends or has another character
  than the next one of \<open>s\<close>, the failure is at the position reached after
  \<open>pre\<close>, the position of the first mismatching character; this is not the
  position where \<open>str(s)\<close> started when \<open>pre\<close> is not empty.
\<close>

theorem str_literal:
  "(\<exists>r. str s st = Some r)
   \<and> ((\<exists>v st'. str s st = Some (ParserResult v st')) \<longleftrightarrow> (\<exists>rest. text st = s @ rest))
   \<and> (text st = s @ rest \<longrightarrow>
        str s st = Some (ParserResult s (advance (length s) st))
        \<and> text (advance (length s) st) = rest)
   \<and> str [] st = Some (ParserResult [] st)
   \<and> (s = pre @ c # suf \<longrightarrow> text st = pre @ rest' \<longrightarrow> (rest' = [] \<or> hd rest' \<noteq> c) \<longrightarrow>
        (\<exists>msg. str s st = Some (ParserError (position (advance (length pre) st)) msg))
        \<and> (pre \<noteq> [] \<longrightarrow> position (advance (length pre) st) \<noteq> position st))"
proof (intro conjI impI)
  show "\<exists>r. str s st = Some r"
    by (rule str_returns)
  show "(\<exists>v st'. str s st = Some (ParserResult v st')) \<longleftrightarrow> (\<exists>rest. text st = s @ rest)"
    using str_success_prefix str_match by blast
  show "str [] st = Some (ParserResult [] st)"
    by (simp add: pure_apply)
next
  assume "text st = s @ rest"
  from str_match [OF this]
  show "str s st = Some (ParserResult s (advance (length s) st))"
    and "text (advance (length s) st) = rest"
    by simp_all
next
  assume s: "s = pre @ c # suf" and t: "text st = pre @ rest'"
    and r: "rest' = [] \<or> hd rest' \<noteq> c"
  from str_mismatch [OF t r, of suf] s
  show "\<exists>msg. str s st = Some (ParserError (position (advance (length pre) st)) msg)"
    by simp
  assume "pre \<noteq> []"
  with t advance_moves [of "length pre" st]
  show "position (advance (length pre) st) \<noteq> position st"
    by simp
qed

theorem str_literal_witness:
  "str ''ab'' (makeInput ''abc'')
     = Some (ParserResult ''ab'' \<lparr>position = \<lparr>line = 1, column = 3\<rparr>, text = ''c''\<rparr>)
   \<and> (\<exists>msg. str ''abc'' (makeInput ''abx'')
         = Some (ParserError \<lparr>line = 1, column = 3\<rparr> msg))
   \<and> \<lparr>line = 1, column = 3\<rparr> \<noteq> position (makeInput ''abx'')"
proof -
  have a: "advance (length ''ab'') (makeInput ''abc'')
      = \<lparr>position = \<lparr>line = 1, column = 3\<rparr>, text = ''c''\<rparr>"
    by (simp add: makeInput_def getCharacterFromInput_def newline_def)
  have b: "position (advance (length ''ab'') (makeInput ''abx'')) = \<lparr>line = 1, column = 3\<rparr>"
    by (simp add: makeInput_def getCharacterFromInput_def newline_def)
  have t1: "text (makeInput ''abc'') = ''ab'' @ ''c''"
    by (simp add: makeInput_def)
  have t2: "text (makeInput ''abx'') = ''ab'' @ ''x''"
    by (simp add: makeInput_def)
  from str_literal [where s = "''ab''" and st = "makeInput ''abc''" and rest = "''c''"] t1 a
  have 1: "str ''ab'' (makeInput ''abc'')
      = Some (ParserResult ''ab'' \<lparr>position = \<lparr>line = 1, column = 3\<rparr>, text = ''c''\<rparr>)"
    by (simp del: advance.simps str.simps)
  have 2: "(\<exists>msg. str ''abc'' (makeInput ''abx'')
        = Some (ParserError (position (advance (length ''ab'') (makeInput ''abx''))) msg))
      \<and> (''ab'' \<noteq> [] \<longrightarrow>
          position (advance (length ''ab'') (makeInput ''abx'')) \<noteq> position (makeInput ''abx''))"
    by (rule str_literal [where s = "''abc''" and st = "makeInput ''abx''" and pre = "''ab''"
        and c = "CHR ''c''" and suf = "[]" and rest' = "''x''",
        THEN conjunct2, THEN conjunct2, THEN conjunct2, THEN conjunct2, rule_format])
      (simp_all add: t2)
  from 1 2 b show ?thesis
    by (simp del: advance.simps str.simps)
qed

end
